theory Spec2Isabelle
  imports Complex_Main
begin

section \<open>Python values and library functions used by the datasets package\<close>

text \<open>
  Exceptions of the Python source are values: every \<^verbatim>\<open>raise\<close> of the modelled
  code, and every failure of a library call it makes, is a branch returning \<open>Inl\<close>.
  \<open>GenericException\<close> is the bare \<^verbatim>\<open>raise Exception(...)\<close> of
  \<^verbatim>\<open>Sample.__post_init__\<close>.
\<close>

datatype py_error =
    ValueError
  | IndexError
  | KeyError
  | RuntimeError
  | ZeroDivisionError
  | TypeError
  | NameError
  | GenericException

text \<open>
  \<^verbatim>\<open>xs[:n]\<close> and \<^verbatim>\<open>xs[n:]\<close> for a Python integer \<open>n\<close>: a negative
  bound counts from the end, and both bounds are clamped to the sequence.
\<close>

definition py_slice_to :: "int \<Rightarrow> 'a list \<Rightarrow> 'a list" where
  "py_slice_to n xs =
     (if n < 0 then take (nat (int (length xs) + n)) xs else take (nat n) xs)"

definition py_slice_from :: "int \<Rightarrow> 'a list \<Rightarrow> 'a list" where
  "py_slice_from n xs =
     (if n < 0 then drop (nat (int (length xs) + n)) xs else drop (nat n) xs)"

text \<open>
  \<^verbatim>\<open>numpy.arange(start, stop, step)\<close> on integers: \<open>ceil((stop - start) / step)\<close>
  values \<open>start + i * step\<close> (none when that count is negative); a zero step raises.
  With Python's floor division the ceiling is \<open>- ((start - stop) div step)\<close>.
\<close>

definition arange_len :: "int \<Rightarrow> int \<Rightarrow> int \<Rightarrow> nat" where
  "arange_len start stop step = nat (- ((start - stop) div step))"

definition np_arange :: "int \<Rightarrow> int \<Rightarrow> int \<Rightarrow> py_error + int list" where
  "np_arange start stop step =
     (if step = 0 then Inl ZeroDivisionError
      else Inr (map (\<lambda>i. start + int i * step) [0..<arange_len start stop step]))"

section \<open>Period\<close>

text \<open>
  \<^verbatim>\<open>class Period\<close> of \<^verbatim>\<open>datasets/base.py\<close>, after \<^verbatim>\<open>__post_init__\<close> has
  parsed \<^verbatim>\<open>start\<close> and \<^verbatim>\<open>end\<close> (format \<^verbatim>\<open>%Y%m%d%H\<close>) into
  \<^verbatim>\<open>numpy.datetime64\<close> values. A datetime is its number of seconds since the epoch, the
  unit \<^verbatim>\<open>date_list\<close> asks for (\<^verbatim>\<open>dtype="datetime64[s]"\<close>).
\<close>

record Period =
  start :: int
  end_date :: int
  step_duration :: int
  period_name :: string
  term_start :: int
  term_end :: int

definition seconds_per_day :: int where
  "seconds_per_day = 86400"

text \<open>\<^verbatim>\<open>np.arange(self.term_start, self.term_end + 1, self.step_duration)\<close>\<close>

definition terms_list :: "Period \<Rightarrow> py_error + int list" where
  "terms_list p = np_arange (term_start p) (term_end p + 1) (step_duration p)"

text \<open>
  \<^verbatim>\<open>np.arange(self.start, self.end + np.timedelta64(1, "D"), np.timedelta64(1, "D"),
  dtype="datetime64[s]").tolist()\<close>
\<close>

definition date_list :: "Period \<Rightarrow> py_error + int list" where
  "date_list p = np_arange (start p) (end_date p + seconds_per_day) seconds_per_day"

text \<open>
  The \<^verbatim>\<open>train\<close> period of the configuration written by \<^verbatim>\<open>datasets/dummy.py\<close>:
  \<^verbatim>\<open>start = 2023010100\<close>, \<^verbatim>\<open>end = 2023010107\<close>, \<^verbatim>\<open>step_duration = 1\<close>, with
  the default term window. 2023-01-01 00:00 is second 1672531200 of the epoch.
\<close>

definition dummy_train_period :: Period where
  "dummy_train_period =
     \<lparr>start = 1672531200, end_date = 1672556400, step_duration = 1,
      period_name = ''train'', term_start = 0, term_end = 23\<rparr>"

text \<open>The term window of the scenario of the test suite: terms 0 to 11 in steps of 2.\<close>

definition scenario_period :: Period where
  "scenario_period =
     \<lparr>start = 1623715200, end_date = 1623726000, step_duration = 2,
      period_name = ''test'', term_start = 0, term_end = 11\<rparr>"

section \<open>Tensors\<close>

text \<open>
  A \<^verbatim>\<open>torch.Tensor\<close> (or \<^verbatim>\<open>numpy.ndarray\<close>) is its shape, its element type and
  its elements in row-major order. Element values are real numbers: changing the element
  type changes the tag and keeps the values, so rounding is not part of the model.
\<close>

datatype dtype = Float16 | Float32 | Float64 | Int64

record tensor =
  shape :: "nat list"
  dtype :: dtype
  data :: "real list"

definition rank :: "tensor \<Rightarrow> nat" where
  "rank t = length (shape t)"

text \<open>The bound of a Python slice, brought into \<open>0..len\<close>.\<close>

definition py_clamp :: "int \<Rightarrow> nat \<Rightarrow> nat" where
  "py_clamp n len = (if n < 0 then nat (int len + n) else min (nat n) len)"

text \<open>\<^verbatim>\<open>t.type(d)\<close>\<close>

definition tensor_type :: "dtype \<Rightarrow> tensor \<Rightarrow> tensor" where
  "tensor_type d t = t\<lparr>dtype := d\<rparr>"

text \<open>\<^verbatim>\<open>t[:n]\<close> and \<^verbatim>\<open>t[n:]\<close>: slices along the first axis.\<close>

definition tensor_slice_to :: "int \<Rightarrow> tensor \<Rightarrow> py_error + tensor" where
  "tensor_slice_to n t =
     (case shape t of
        [] \<Rightarrow> Inl IndexError
      | d # ds \<Rightarrow>
          Inr \<lparr>shape = py_clamp n d # ds, dtype = dtype t,
               data = take (py_clamp n d * prod_list ds) (data t)\<rparr>)"

definition tensor_slice_from :: "int \<Rightarrow> tensor \<Rightarrow> py_error + tensor" where
  "tensor_slice_from n t =
     (case shape t of
        [] \<Rightarrow> Inl IndexError
      | d # ds \<Rightarrow>
          Inr \<lparr>shape = (d - py_clamp n d) # ds, dtype = dtype t,
               data = drop (py_clamp n d * prod_list ds) (data t)\<rparr>)"

text \<open>\<^verbatim>\<open>t[:, :n]\<close> and \<^verbatim>\<open>t[:, n:]\<close>: slices along the second axis.\<close>

definition tensor_slice1_to :: "int \<Rightarrow> tensor \<Rightarrow> py_error + tensor" where
  "tensor_slice1_to n t =
     (case shape t of
        d0 # d1 # ds \<Rightarrow>
          Inr \<lparr>shape = d0 # py_clamp n d1 # ds, dtype = dtype t,
               data = concat (map (\<lambda>i. take (py_clamp n d1 * prod_list ds)
                                        (drop (i * d1 * prod_list ds) (data t))) [0..<d0])\<rparr>
      | _ \<Rightarrow> Inl IndexError)"

definition tensor_slice1_from :: "int \<Rightarrow> tensor \<Rightarrow> py_error + tensor" where
  "tensor_slice1_from n t =
     (case shape t of
        d0 # d1 # ds \<Rightarrow>
          Inr \<lparr>shape = d0 # (d1 - py_clamp n d1) # ds, dtype = dtype t,
               data = concat (map (\<lambda>i. take ((d1 - py_clamp n d1) * prod_list ds)
                                        (drop ((i * d1 + py_clamp n d1) * prod_list ds) (data t)))
                                  [0..<d0])\<rparr>
      | _ \<Rightarrow> Inl IndexError)"

text \<open>
  \<^verbatim>\<open>torch.utils.data._utils.collate.collate_tensor_fn(batch)\<close>: reads
  \<^verbatim>\<open>batch[0]\<close>, then \<^verbatim>\<open>torch.stack(batch, 0)\<close>, which needs equal shapes.
\<close>

definition collate_tensor_fn :: "tensor list \<Rightarrow> py_error + tensor" where
  "collate_tensor_fn batch =
     (case batch of
        [] \<Rightarrow> Inl IndexError
      | t # ts \<Rightarrow>
          if list_all (\<lambda>u. shape u = shape t) ts
          then Inr \<lparr>shape = length batch # shape t, dtype = dtype t,
                    data = concat (map data batch)\<rparr>
          else Inl RuntimeError)"

text \<open>\<^verbatim>\<open>torch.unsqueeze(t, idx)\<close> for \<open>0 \<le> idx\<close>: a new axis of size 1.\<close>

definition torch_unsqueeze :: "nat \<Rightarrow> tensor \<Rightarrow> py_error + tensor" where
  "torch_unsqueeze idx t =
     (if idx \<le> rank t then Inr (t\<lparr>shape := take idx (shape t) @ [1] @ drop idx (shape t)\<rparr>)
      else Inl IndexError)"

text \<open>
  \<^verbatim>\<open>t.expand(*sizes)\<close> with one size per axis: \<open>-1\<close> keeps an axis, an axis of size 1
  is repeated to the size asked for, any other change is an error.
\<close>

definition expand_axis :: "nat \<Rightarrow> nat \<Rightarrow> tensor \<Rightarrow> tensor" where
  "expand_axis i n t =
     (let inner = prod_list (drop (Suc i) (shape t)); outer = prod_list (take i (shape t))
      in t\<lparr>shape := (shape t)[i := n],
           data := concat (map (\<lambda>k. concat (replicate n (take inner (drop (k * inner) (data t)))))
                            [0..<outer])\<rparr>)"

fun expand_from :: "nat \<Rightarrow> int list \<Rightarrow> tensor \<Rightarrow> py_error + tensor" where
  "expand_from i [] t = Inr t"
| "expand_from i (s # ss) t =
     (if s = - 1 \<or> int (shape t ! i) = s then expand_from (Suc i) ss t
      else if shape t ! i = 1 \<and> 0 \<le> s then expand_from (Suc i) ss (expand_axis i (nat s) t)
      else Inl RuntimeError)"

definition torch_expand :: "int list \<Rightarrow> tensor \<Rightarrow> py_error + tensor" where
  "torch_expand sizes t =
     (if length sizes = rank t then expand_from 0 sizes t else Inl RuntimeError)"

text \<open>
  \<^verbatim>\<open>torch.cat(ts, dim=-1)\<close>: the tensors agree on every axis but the last; the last
  axes are laid side by side.
\<close>

definition torch_cat_last :: "tensor list \<Rightarrow> py_error + tensor" where
  "torch_cat_last ts =
     (case ts of
        [] \<Rightarrow> Inl RuntimeError
      | t # _ \<Rightarrow>
          if shape t = [] \<or> \<not> list_all (\<lambda>u. shape u \<noteq> [] \<and> butlast (shape u) = butlast (shape t)) ts
          then Inl RuntimeError
          else Inr \<lparr>shape = butlast (shape t) @ [sum_list (map (\<lambda>u. last (shape u)) ts)],
                    dtype = dtype t,
                    data = concat (map (\<lambda>k. concat (map (\<lambda>u. take (last (shape u))
                                                            (drop (k * last (shape u)) (data u))) ts))
                                       [0..<prod_list (butlast (shape t))])\<rparr>)"

section \<open>NamedTensor\<close>

text \<open>
  \<^verbatim>\<open>mfai.torch.namedtensor.NamedTensor\<close>, the labelled tensor of the library the
  package imports: a tensor, one name per axis, the names of the features along the
  feature axis, and the name of that axis (\<^verbatim>\<open>"features"\<close> unless given). The
  constructor checks that there is one name per axis and one feature name per index of
  the feature axis.
\<close>

record NamedTensor =
  tensor :: tensor
  names :: "string list"
  feature_names :: "string list"
  feature_dim_name :: string

text \<open>\<^verbatim>\<open>xs.index(x)\<close>: the first position of \<open>x\<close>, or nothing where Python raises.\<close>

fun list_index :: "'a \<Rightarrow> 'a list \<Rightarrow> nat option" where
  "list_index x [] = None"
| "list_index x (y # ys) =
     (if x = y then Some 0
      else case list_index x ys of None \<Rightarrow> None | Some i \<Rightarrow> Some (Suc i))"

definition NamedTensor_init ::
  "tensor \<Rightarrow> string list \<Rightarrow> string list \<Rightarrow> string \<Rightarrow> py_error + NamedTensor" where
  "NamedTensor_init t ns fns fdn =
     (if rank t \<noteq> length ns then Inl ValueError
      else case list_index fdn ns of
             None \<Rightarrow> Inl ValueError
           | Some i \<Rightarrow>
               if shape t ! i \<noteq> length fns then Inl ValueError
               else Inr \<lparr>tensor = t, names = ns, feature_names = fns, feature_dim_name = fdn\<rparr>)"

definition features_axis :: string where
  "features_axis = ''features''"


text \<open>\<^verbatim>\<open>nt.dim_size(name)\<close>\<close>

definition dim_size :: "NamedTensor \<Rightarrow> string \<Rightarrow> py_error + nat" where
  "dim_size nt name =
     (case list_index name (names nt) of
        None \<Rightarrow> Inl ValueError
      | Some i \<Rightarrow> if i < rank (tensor nt) then Inr (shape (tensor nt) ! i) else Inl IndexError)"

definition SPATIAL_DIM_NAMES :: "string list" where
  "SPATIAL_DIM_NAMES = [''lat'', ''lon'', ''ngrid'']"

text \<open>The sizes of the spatial axes a labelled tensor has, in the order of its names.\<close>

definition spatial_dim_shape :: "NamedTensor \<Rightarrow> nat list" where
  "spatial_dim_shape nt =
     map (\<lambda>i. shape (tensor nt) ! i)
       (filter (\<lambda>i. names nt ! i \<in> set SPATIAL_DIM_NAMES) [0..<length (names nt)])"

text \<open>
  \<^verbatim>\<open>NamedTensor.expand_to_batch_like(tensor, other)\<close>: the names of \<open>other\<close> behind a
  new first name \<^verbatim>\<open>batch\<close>, and the feature names of \<open>other\<close>.
\<close>

definition expand_to_batch_like :: "tensor \<Rightarrow> NamedTensor \<Rightarrow> py_error + NamedTensor" where
  "expand_to_batch_like t other =
     (if rank t \<noteq> length (''batch'' # names other) then Inl ValueError
      else NamedTensor_init t (''batch'' # names other) (feature_names other)
             (feature_dim_name other))"

text \<open>
  \<^verbatim>\<open>NamedTensor.concat(nts)\<close>: an empty list is an error, a single tensor is returned
  as it is, and several are laid side by side along the last axis when their feature names
  are pairwise disjoint and their names and spatial sizes agree.
\<close>

fun feature_names_disjoint :: "string list \<Rightarrow> NamedTensor list \<Rightarrow> bool" where
  "feature_names_disjoint seen [] = True"
| "feature_names_disjoint seen (nt # nts) =
     (if list_ex (\<lambda>f. f \<in> set seen) (feature_names nt) then False
      else feature_names_disjoint (seen @ feature_names nt) nts)"

definition NamedTensor_concat :: "NamedTensor list \<Rightarrow> py_error + NamedTensor" where
  "NamedTensor_concat nts =
     (case nts of
        [] \<Rightarrow> Inl ValueError
      | [nt] \<Rightarrow> Inr nt
      | nt # _ \<Rightarrow>
          if \<not> feature_names_disjoint [] nts then Inl ValueError
          else if \<not> list_all (\<lambda>u. names u = names nt) nts then Inl ValueError
          else if \<not> list_all (\<lambda>u. spatial_dim_shape u = spatial_dim_shape nt) nts
          then Inl ValueError
          else case torch_cat_last (map tensor nts) of
                 Inl e \<Rightarrow> Inl e
               | Inr t \<Rightarrow>
                   NamedTensor_init t (names nt) (concat (map feature_names nts)) features_axis)"

text \<open>
  \<^verbatim>\<open>self.unsqueeze_and_expand_from_(other)\<close>: every spatial axis that \<open>other\<close> has and
  \<open>self\<close> lacks is inserted at the position it has in \<open>other\<close>, in increasing order of
  position, and then repeated to the size it has in \<open>other\<close>. The labelled tensor is
  changed in place; the model returns the new value.
\<close>

definition missing_names :: "NamedTensor \<Rightarrow> NamedTensor \<Rightarrow> string list" where
  "missing_names self other =
     rev (remdups (rev (filter (\<lambda>n. n \<notin> set (names self) \<and> n \<in> set SPATIAL_DIM_NAMES)
                          (names other))))"

fun unsqueeze_names :: "string list \<Rightarrow> NamedTensor \<Rightarrow> NamedTensor \<Rightarrow> py_error + NamedTensor" where
  "unsqueeze_names [] other self = Inr self"
| "unsqueeze_names (n # ns) other self =
     (case list_index n (names other) of
        None \<Rightarrow> Inl ValueError
      | Some idx \<Rightarrow>
          (case torch_unsqueeze idx (tensor self) of
             Inl e \<Rightarrow> Inl e
           | Inr t \<Rightarrow>
               unsqueeze_names ns other
                 (self\<lparr>tensor := t, names := take idx (names self) @ [n] @ drop idx (names self)\<rparr>)))"

fun expander :: "string list \<Rightarrow> NamedTensor \<Rightarrow> string list \<Rightarrow> py_error + int list" where
  "expander missing other [] = Inr []"
| "expander missing other (n # ns) =
     (if n \<in> set missing
      then (case dim_size other n of
              Inl e \<Rightarrow> Inl e
            | Inr d \<Rightarrow> (case expander missing other ns of
                          Inl e \<Rightarrow> Inl e
                        | Inr ds \<Rightarrow> Inr (int d # ds)))
      else (case expander missing other ns of
              Inl e \<Rightarrow> Inl e
            | Inr ds \<Rightarrow> Inr (- 1 # ds)))"

definition unsqueeze_and_expand_from :: "NamedTensor \<Rightarrow> NamedTensor \<Rightarrow> py_error + NamedTensor" where
  "unsqueeze_and_expand_from self other =
     (let missing = missing_names self other in
      if missing = [] then Inr self
      else case unsqueeze_names missing other self of
             Inl e \<Rightarrow> Inl e
           | Inr self' \<Rightarrow>
               (case expander missing other (names self') of
                  Inl e \<Rightarrow> Inl e
                | Inr sizes \<Rightarrow>
                    (case torch_expand sizes (tensor self') of
                       Inl e \<Rightarrow> Inl e
                     | Inr t \<Rightarrow> Inr (self'\<lparr>tensor := t\<rparr>))))"

section \<open>Item, ItemBatch and the batch collator\<close>

text \<open>
  \<^verbatim>\<open>class Item\<close>, with the check of \<^verbatim>\<open>__post_init__\<close>: the axis names and
  then the feature names of \<^verbatim>\<open>inputs\<close> and \<^verbatim>\<open>outputs\<close> are compared as lists;
  a difference raises \<^verbatim>\<open>ValueError\<close>.
\<close>

record Item =
  inputs :: NamedTensor
  forcing :: NamedTensor
  outputs :: NamedTensor

definition Item_init :: "NamedTensor \<Rightarrow> NamedTensor \<Rightarrow> NamedTensor \<Rightarrow> py_error + Item" where
  "Item_init inp frc out =
     (if names inp \<noteq> names out then Inl ValueError
      else if feature_names inp \<noteq> feature_names out then Inl ValueError
      else Inr \<lparr>inputs = inp, forcing = frc, outputs = out\<rparr>)"

text \<open>
  \<^verbatim>\<open>class ItemBatch(Item)\<close> adds no field and inherits \<^verbatim>\<open>__post_init__\<close>; its
  derived sizes are read from the axes.
\<close>

type_synonym ItemBatch = Item

definition ItemBatch_init :: "NamedTensor \<Rightarrow> NamedTensor \<Rightarrow> NamedTensor \<Rightarrow> py_error + ItemBatch" where
  "ItemBatch_init inp frc out = Item_init inp frc out"

definition batch_size :: "ItemBatch \<Rightarrow> py_error + nat" where
  "batch_size b = dim_size (inputs b) ''batch''"

text \<open>
  One field of \<^verbatim>\<open>collate_fn\<close>: the tensors of the field are stacked, converted to
  \<^verbatim>\<open>torch.float32\<close>, and labelled like the field of the first item.
\<close>

definition collate_field :: "(Item \<Rightarrow> NamedTensor) \<Rightarrow> Item list \<Rightarrow> py_error + NamedTensor" where
  "collate_field fld items =
     (case collate_tensor_fn (map (\<lambda>item. tensor (fld item)) items) of
        Inl e \<Rightarrow> Inl e
      | Inr t \<Rightarrow>
          (case items of
             [] \<Rightarrow> Inl IndexError
           | item0 # _ \<Rightarrow> expand_to_batch_like (tensor_type Float32 t) (fld item0)))"

text \<open>
  \<^verbatim>\<open>collate_fn\<close>: the fields in the order of the dataclass (\<^verbatim>\<open>inputs\<close>,
  \<^verbatim>\<open>forcing\<close>, \<^verbatim>\<open>outputs\<close>), then the constructor of \<^verbatim>\<open>ItemBatch\<close>.
\<close>

definition collate_fn :: "Item list \<Rightarrow> py_error + ItemBatch" where
  "collate_fn items =
     (case collate_field inputs items of
        Inl e \<Rightarrow> Inl e
      | Inr bi \<Rightarrow>
          (case collate_field forcing items of
             Inl e \<Rightarrow> Inl e
           | Inr bf \<Rightarrow>
               (case collate_field outputs items of
                  Inl e \<Rightarrow> Inl e
                | Inr bo \<Rightarrow> ItemBatch_init bi bf bo)))"

section \<open>Well-formed items and example values\<close>


definition same_shapes :: "Item \<Rightarrow> Item \<Rightarrow> bool" where
  "same_shapes a b =
     (shape (tensor (inputs b)) = shape (tensor (inputs a))
      \<and> shape (tensor (forcing b)) = shape (tensor (forcing a))
      \<and> shape (tensor (outputs b)) = shape (tensor (outputs a)))"

definition state_names :: "string list" where
  "state_names = [''timestep'', ''lat'', ''lon'', ''features'']"

text \<open>
  A single-feature state on a grid of one cell: one value per timestep, shape
  \<open>(T, 1, 1, 1)\<close>.
\<close>

definition state_nt :: "dtype \<Rightarrow> string \<Rightarrow> real list \<Rightarrow> NamedTensor" where
  "state_nt dt feature vals =
     \<lparr>tensor = \<lparr>shape = [length vals, 1, 1, 1], dtype = dt, data = vals\<rparr>,
      names = state_names, feature_names = [feature], feature_dim_name = features_axis\<rparr>"

definition example_item_a :: Item where
  "example_item_a =
     \<lparr>inputs = state_nt Float64 ''t2m'' [1, 2], forcing = state_nt Float64 ''toa'' [5],
      outputs = state_nt Float64 ''t2m'' [3]\<rparr>"

definition example_item_b :: Item where
  "example_item_b =
     \<lparr>inputs = state_nt Float16 ''u10'' [7, 8], forcing = state_nt Float16 ''toa'' [6],
      outputs = state_nt Float16 ''u10'' [9]\<rparr>"

text \<open>An item shaped like \<open>example_item_a\<close>, stored in half precision.\<close>

definition example_item_c :: Item where
  "example_item_c =
     \<lparr>inputs = state_nt Float16 ''t2m'' [7, 8], forcing = state_nt Float16 ''toa'' [6],
      outputs = state_nt Float16 ''t2m'' [9]\<rparr>"

text \<open>The three tensors of an item, without their labels.\<close>

definition item_tensors :: "Item \<Rightarrow> tensor \<times> tensor \<times> tensor" where
  "item_tensors it = (tensor (inputs it), tensor (forcing it), tensor (outputs it))"

section \<open>Timestamps, parameters, settings and Sample\<close>

text \<open>
  \<^verbatim>\<open>class Timestamps\<close>: the reference datetime (seconds since the epoch), the terms
  (hour offsets) and the validity times. The three fields are independent fields of a
  dataclass; nothing ties the number of validity times to the number of terms.
\<close>

record Timestamps =
  datetime :: int
  terms :: "int list"
  validity_times :: "int list"

text \<open>
  Modelled from the spec: \<^verbatim>\<open>WeatherParam\<close>, \<^verbatim>\<open>SamplePreprocSettings\<close>,
  \<^verbatim>\<open>Stats\<close> and \<^verbatim>\<open>Grid\<close> are declared in \<^verbatim>\<open>py4cast/datasets/access.py\<close>,
  which is not among the sources. The records hold the fields the code of
  \<^verbatim>\<open>datasets/base.py\<close> reads. The role of a parameter is one of the three literals
  \<^verbatim>\<open>"input"\<close>, \<^verbatim>\<open>"output"\<close>, \<^verbatim>\<open>"input_output"\<close>.
\<close>

datatype kind = Input | Output | InputOutput

record WeatherParam =
  param_name :: string
  level :: int
  kind :: kind
  parameter_short_name :: string

record SamplePreprocSettings =
  dataset_name :: string
  num_input_steps :: int
  num_pred_steps :: int
  standardize :: bool
  file_format :: string

record stat =
  stat_mean :: real
  stat_std :: real

type_synonym Stats = "string \<Rightarrow> stat option"

record Grid =
  grid_name :: string
  lat :: tensor
  lon :: tensor

text \<open>
  The two callables a \<^verbatim>\<open>Sample\<close> is given: \<^verbatim>\<open>exists(dataset_name, param,
  timestamps, file_format)\<close> and \<^verbatim>\<open>get_param_tensor(param, stats, timestamps, settings,
  standardize, member)\<close>.
\<close>

type_synonym exists_fn = "string \<Rightarrow> WeatherParam \<Rightarrow> Timestamps \<Rightarrow> string \<Rightarrow> bool"

type_synonym fetch_fn =
  "WeatherParam \<Rightarrow> Stats \<Rightarrow> Timestamps \<Rightarrow> SamplePreprocSettings \<Rightarrow> bool \<Rightarrow> int
     \<Rightarrow> py_error + tensor"

record Sample =
  timestamps :: Timestamps
  settings :: SamplePreprocSettings
  params :: "WeatherParam list"
  stats :: Stats
  grid :: Grid
  exists :: exists_fn
  get_param_tensor :: fetch_fn
  member_id :: int
  input_timestamps :: Timestamps
  output_timestamps :: Timestamps

text \<open>
  The constructor with \<^verbatim>\<open>Sample.__post_init__\<close>: the number of validity times is
  compared with \<^verbatim>\<open>num_input_steps + num_pred_steps\<close>, and the timestamps are split
  at \<^verbatim>\<open>num_input_steps\<close>.
\<close>

definition Sample_init ::
  "Timestamps \<Rightarrow> SamplePreprocSettings \<Rightarrow> WeatherParam list \<Rightarrow> Stats \<Rightarrow> Grid \<Rightarrow> exists_fn
     \<Rightarrow> fetch_fn \<Rightarrow> int \<Rightarrow> py_error + Sample" where
  "Sample_init ts st ps sts g ex gpt m =
     (if num_input_steps st + num_pred_steps st \<noteq> int (length (validity_times ts))
      then Inl GenericException
      else Inr \<lparr>timestamps = ts, settings = st, params = ps, stats = sts, grid = g,
                exists = ex, get_param_tensor = gpt, member_id = m,
                input_timestamps =
                  \<lparr>datetime = datetime ts,
                   terms = py_slice_to (num_input_steps st) (terms ts),
                   validity_times = py_slice_to (num_input_steps st) (validity_times ts)\<rparr>,
                output_timestamps =
                  \<lparr>datetime = datetime ts,
                   terms = py_slice_from (num_input_steps st) (terms ts),
                   validity_times = py_slice_from (num_input_steps st) (validity_times ts)\<rparr>\<rparr>)"


section \<open>Forcings\<close>

text \<open>
  \<^verbatim>\<open>get_year_hour_forcing\<close> and \<^verbatim>\<open>generate_toa_radiation_forcing\<close> belong to
  \<^verbatim>\<open>py4cast/forcingutils.py\<close>, which is not among the sources: they are parameters of
  the model, from the date and the terms (and the latitudes and longitudes) to a tensor.
\<close>

record forcingutils =
  get_year_hour_forcing :: "int \<Rightarrow> int list \<Rightarrow> py_error + tensor"
  generate_toa_radiation_forcing :: "tensor \<Rightarrow> tensor \<Rightarrow> int \<Rightarrow> int list \<Rightarrow> py_error + tensor"

text \<open>\<^verbatim>\<open>generate_forcings(date, output_timestamps, grid)\<close>: when it returns, three tensors.\<close>

definition generate_forcings ::
  "forcingutils \<Rightarrow> int \<Rightarrow> int list \<Rightarrow> Grid \<Rightarrow> py_error + NamedTensor list" where
  "generate_forcings fu date output_terms g =
     (case get_year_hour_forcing fu date output_terms of
        Inl e \<Rightarrow> Inl e
      | Inr dtf0 \<Rightarrow>
     (case generate_toa_radiation_forcing fu (lat g) (lon g) date output_terms of
        Inl e \<Rightarrow> Inl e
      | Inr solar0 \<Rightarrow>
     (case tensor_slice1_to 2 (tensor_type Float32 dtf0) of
        Inl e \<Rightarrow> Inl e
      | Inr hour_part \<Rightarrow>
     (case NamedTensor_init hour_part [''timestep'', ''features''] [''cos_hour'', ''sin_hour'']
             features_axis of
        Inl e \<Rightarrow> Inl e
      | Inr nt_hour \<Rightarrow>
     (case tensor_slice1_from 2 (tensor_type Float32 dtf0) of
        Inl e \<Rightarrow> Inl e
      | Inr doy_part \<Rightarrow>
     (case NamedTensor_init doy_part [''timestep'', ''features''] [''cos_doy'', ''sin_doy'']
             features_axis of
        Inl e \<Rightarrow> Inl e
      | Inr nt_doy \<Rightarrow>
     (case NamedTensor_init (tensor_type Float32 solar0) state_names [''toa_radiation'']
             features_axis of
        Inl e \<Rightarrow> Inl e
      | Inr nt_solar \<Rightarrow> Inr [nt_hour, nt_doy, nt_solar])))))))"

section \<open>Sample.load\<close>

text \<open>
  The state of the loop over the parameters: the lists \<^verbatim>\<open>linputs\<close> and
  \<^verbatim>\<open>loutputs\<close>, and a record of the calls of \<^verbatim>\<open>get_param_tensor\<close> made so far
  (the parameter and the timestamps asked for).
\<close>

type_synonym load_state =
  "NamedTensor list \<times> NamedTensor list \<times> (WeatherParam \<times> Timestamps) list"

text \<open>
  One iteration. An \<^verbatim>\<open>input\<close> parameter is fetched over the input timestamps and
  wrapped, and the wrapped tensor is appended to neither list. An \<^verbatim>\<open>output\<close>
  parameter is fetched over the output timestamps and appended to \<^verbatim>\<open>loutputs\<close>. Any
  other parameter is fetched once over all timestamps; \<^verbatim>\<open>tensor[-num_pred_steps:]\<close> goes
  to \<^verbatim>\<open>loutputs\<close> and \<^verbatim>\<open>tensor[:num_input_steps]\<close> to \<^verbatim>\<open>linputs\<close>.
\<close>

definition load_param :: "Sample \<Rightarrow> bool \<Rightarrow> WeatherParam \<Rightarrow> load_state \<Rightarrow> py_error + load_state" where
  "load_param s no_standardize param acc =
     (case acc of (linputs, loutputs, fetched) \<Rightarrow>
        (case kind param of
           Input \<Rightarrow>
             (case get_param_tensor s param (stats s) (input_timestamps s) (settings s)
                     (standardize (settings s) \<and> \<not> no_standardize) (member_id s) of
                Inl e \<Rightarrow> Inl e
              | Inr t \<Rightarrow>
             (case NamedTensor_init t state_names [parameter_short_name param] features_axis of
                Inl e \<Rightarrow> Inl e
              | Inr tmp_state \<Rightarrow>
                  Inr (linputs, loutputs, fetched @ [(param, input_timestamps s)])))
         | Output \<Rightarrow>
             (case get_param_tensor s param (stats s) (output_timestamps s) (settings s)
                     (standardize (settings s) \<and> \<not> no_standardize) (member_id s) of
                Inl e \<Rightarrow> Inl e
              | Inr t \<Rightarrow>
             (case NamedTensor_init t state_names [parameter_short_name param] features_axis of
                Inl e \<Rightarrow> Inl e
              | Inr tmp_state \<Rightarrow>
                  Inr (linputs, loutputs @ [tmp_state],
                       fetched @ [(param, output_timestamps s)])))
         | InputOutput \<Rightarrow>
             (case get_param_tensor s param (stats s) (timestamps s) (settings s)
                     (standardize (settings s) \<and> \<not> no_standardize) (member_id s) of
                Inl e \<Rightarrow> Inl e
              | Inr t \<Rightarrow>
             (case tensor_slice_from (- num_pred_steps (settings s)) t of
                Inl e \<Rightarrow> Inl e
              | Inr t_out \<Rightarrow>
             (case NamedTensor_init t_out state_names [parameter_short_name param] features_axis of
                Inl e \<Rightarrow> Inl e
              | Inr out_state \<Rightarrow>
             (case tensor_slice_to (num_input_steps (settings s)) t of
                Inl e \<Rightarrow> Inl e
              | Inr t_in \<Rightarrow>
             (case NamedTensor_init t_in state_names [parameter_short_name param] features_axis of
                Inl e \<Rightarrow> Inl e
              | Inr in_state \<Rightarrow>
                  Inr (linputs @ [in_state], loutputs @ [out_state],
                       fetched @ [(param, timestamps s)]))))))))"

fun load_params :: "Sample \<Rightarrow> bool \<Rightarrow> WeatherParam list \<Rightarrow> load_state \<Rightarrow> py_error + load_state" where
  "load_params s no_standardize [] acc = Inr acc"
| "load_params s no_standardize (param # rest) acc =
     (case load_param s no_standardize param acc of
        Inl e \<Rightarrow> Inl e
      | Inr acc' \<Rightarrow> load_params s no_standardize rest acc')"

text \<open>
  \<^verbatim>\<open>for forcing in lforcings: forcing.unsqueeze_and_expand_from_(linputs[0])\<close>: each
  iteration reads \<^verbatim>\<open>linputs[0]\<close>, an \<^verbatim>\<open>IndexError\<close> when \<^verbatim>\<open>linputs\<close> is empty.
\<close>

fun expand_forcings :: "NamedTensor list \<Rightarrow> NamedTensor list \<Rightarrow> py_error + NamedTensor list" where
  "expand_forcings [] linputs = Inr []"
| "expand_forcings (frc # rest) linputs =
     (case linputs of
        [] \<Rightarrow> Inl IndexError
      | first # _ \<Rightarrow>
          (case unsqueeze_and_expand_from frc first of
             Inl e \<Rightarrow> Inl e
           | Inr frc' \<Rightarrow>
               (case expand_forcings rest linputs of
                  Inl e \<Rightarrow> Inl e
                | Inr rest' \<Rightarrow> Inr (frc' # rest'))))"

text \<open>
  \<^verbatim>\<open>Sample.load\<close> up to its \<^verbatim>\<open>return\<close> statement: the three lists of labelled
  tensors, and the record of the fetches.
\<close>

definition load_lists ::
  "forcingutils \<Rightarrow> Sample \<Rightarrow> bool
     \<Rightarrow> py_error + (load_state \<times> NamedTensor list)" where
  "load_lists fu s no_standardize =
     (case load_params s no_standardize (params s) ([], [], []) of
        Inl e \<Rightarrow> Inl e
      | Inr acc \<Rightarrow>
     (case generate_forcings fu (datetime (timestamps s)) (terms (output_timestamps s)) (grid s) of
        Inl e \<Rightarrow> Inl e
      | Inr lforcings \<Rightarrow>
     (case expand_forcings lforcings (fst acc) of
        Inl e \<Rightarrow> Inl e
      | Inr lforcings' \<Rightarrow> Inr (acc, lforcings'))))"

text \<open>
  The \<^verbatim>\<open>return\<close> statement: the three concatenations in the order of the keyword
  arguments, then the constructor of \<^verbatim>\<open>Item\<close>.
\<close>

definition build_item :: "load_state \<times> NamedTensor list \<Rightarrow> py_error + Item" where
  "build_item ls =
     (case ls of ((linputs, loutputs, fetched), lforcings) \<Rightarrow>
        (case NamedTensor_concat linputs of
           Inl e \<Rightarrow> Inl e
         | Inr inp \<Rightarrow>
        (case NamedTensor_concat loutputs of
           Inl e \<Rightarrow> Inl e
         | Inr out \<Rightarrow>
        (case NamedTensor_concat lforcings of
           Inl e \<Rightarrow> Inl e
         | Inr frc \<Rightarrow> Item_init inp frc out))))"

definition load :: "forcingutils \<Rightarrow> Sample \<Rightarrow> bool \<Rightarrow> py_error + Item" where
  "load fu s no_standardize =
     (case load_lists fu s no_standardize of
        Inl e \<Rightarrow> Inl e
      | Inr ls \<Rightarrow> build_item ls)"

section \<open>The Titan accessor's fetch\<close>

text \<open>
  The \<^verbatim>\<open>numpy\<close> calls of \<^verbatim>\<open>TitanAccessor.get_param_tensor\<close>:
  \<^verbatim>\<open>np.stack\<close> needs at least one array and equal shapes,
  \<^verbatim>\<open>np.expand_dims(arr, axis=1)\<close> adds an axis of size 1 behind the first, and
  \<^verbatim>\<open>np.transpose(arr, axes=[0, 2, 3, 1])\<close> needs four axes and moves the second to
  the end.
\<close>

definition np_stack :: "tensor list \<Rightarrow> py_error + tensor" where
  "np_stack arrays =
     (case arrays of
        [] \<Rightarrow> Inl ValueError
      | a # rest \<Rightarrow>
          if list_all (\<lambda>u. shape u = shape a) rest
          then Inr \<lparr>shape = length arrays # shape a, dtype = dtype a,
                    data = concat (map data arrays)\<rparr>
          else Inl ValueError)"

definition np_expand_dims1 :: "tensor \<Rightarrow> py_error + tensor" where
  "np_expand_dims1 a =
     (case shape a of
        [] \<Rightarrow> Inl ValueError
      | d # ds \<Rightarrow> Inr (a\<lparr>shape := d # 1 # ds\<rparr>))"

definition np_transpose_0231 :: "tensor \<Rightarrow> py_error + tensor" where
  "np_transpose_0231 a =
     (case shape a of
        [n, l, h, w] \<Rightarrow>
          Inr \<lparr>shape = [n, h, w, l], dtype = dtype a,
               data = concat (map (\<lambda>t. concat (map (\<lambda>i. concat (map (\<lambda>j.
                        map (\<lambda>k. data a ! (((t * l + k) * h + i) * w + j)) [0..<l])
                        [0..<w])) [0..<h])) [0..<n])\<rparr>
      | _ \<Rightarrow> Inl ValueError)"

text \<open>
  \<^verbatim>\<open>(arr - means) / std\<close> with the mean and the standard deviation of one parameter:
  the same two numbers for every element. Division is that of the real numbers; a
  standard deviation of 0 is outside the model.
\<close>

definition standardize_array :: "stat \<Rightarrow> tensor \<Rightarrow> tensor" where
  "standardize_array st a = a\<lparr>data := map (\<lambda>v. (v - stat_mean st) / stat_std st) (data a)\<rparr>"

text \<open>
  \<^verbatim>\<open>TitanAccessor.get_param_tensor(param, stats, dates, settings, no_standardize)\<close>.
  Reading one file (\<^verbatim>\<open>load_data_from_disk\<close>) is a parameter of the model. The
  function takes the dates and \<^verbatim>\<open>no_standardize\<close>, where \<^verbatim>\<open>Sample.load\<close> passes
  \<^verbatim>\<open>timestamps\<close>, \<^verbatim>\<open>standardize\<close> and \<^verbatim>\<open>member\<close> by keyword; it is modelled as
  it is written, by itself.
\<close>

fun load_all_dates :: "(int \<Rightarrow> py_error + tensor) \<Rightarrow> int list \<Rightarrow> py_error + tensor list" where
  "load_all_dates load_data_from_disk [] = Inr []"
| "load_all_dates load_data_from_disk (date # rest) =
     (case load_data_from_disk date of
        Inl e \<Rightarrow> Inl e
      | Inr a \<Rightarrow>
          (case load_all_dates load_data_from_disk rest of
             Inl e \<Rightarrow> Inl e
           | Inr arrays \<Rightarrow> Inr (a # arrays)))"

definition Titan_get_param_tensor ::
  "(string \<Rightarrow> WeatherParam \<Rightarrow> int \<Rightarrow> string \<Rightarrow> py_error + tensor)
     \<Rightarrow> WeatherParam \<Rightarrow> Stats \<Rightarrow> int list \<Rightarrow> SamplePreprocSettings \<Rightarrow> bool
     \<Rightarrow> py_error + tensor" where
  "Titan_get_param_tensor load_data_from_disk param sts dates st no_standardize =
     (case load_all_dates (\<lambda>date. load_data_from_disk (dataset_name st) param date
                                    (file_format st)) dates of
        Inl e \<Rightarrow> Inl e
      | Inr arrays \<Rightarrow>
     (case np_stack arrays of
        Inl e \<Rightarrow> Inl e
      | Inr stacked \<Rightarrow>
     (case (if rank stacked \<noteq> 4 then np_expand_dims1 stacked else Inr stacked) of
        Inl e \<Rightarrow> Inl e
      | Inr arr4 \<Rightarrow>
     (case np_transpose_0231 arr4 of
        Inl e \<Rightarrow> Inl e
      | Inr arr \<Rightarrow>
          if standardize st \<and> \<not> no_standardize
          then (case sts (parameter_short_name param) of
                  None \<Rightarrow> Inl KeyError
                | Some stt \<Rightarrow> Inr (standardize_array stt arr))
          else Inr arr))))"

section \<open>Example samples\<close>

text \<open>
  A data source over a grid of one cell: every parameter exists, and a fetch returns one
  value per validity time asked for (the hour of that time), shaped
  \<open>(timestep, lat, lon, features) = (T, 1, 1, 1)\<close>.
\<close>

definition always_exists :: exists_fn where
  "always_exists ds param ts ff = True"

definition cell_fetch :: fetch_fn where
  "cell_fetch param sts ts st std m =
     Inr \<lparr>shape = [length (validity_times ts), 1, 1, 1], dtype = Float64,
          data = map (\<lambda>v. of_int (v div 3600)) (validity_times ts)\<rparr>"

text \<open>
  Stand-ins for the forcing functions on that grid: four time encodings per output term,
  and one radiation value per output term and cell.
\<close>

definition cell_forcingutils :: forcingutils where
  "cell_forcingutils =
     \<lparr>get_year_hour_forcing = (\<lambda>date ts.
        Inr \<lparr>shape = [length ts, 4], dtype = Float64,
             data = concat (map (\<lambda>t. [1, 0, 1, 0]) ts)\<rparr>),
      generate_toa_radiation_forcing = (\<lambda>la lo date ts.
        Inr \<lparr>shape = [length ts, 1, 1, 1], dtype = Float64, data = map (\<lambda>t. 0) ts\<rparr>)\<rparr>"

definition cell_grid :: Grid where
  "cell_grid =
     \<lparr>grid_name = ''dummygrid'',
      lat = \<lparr>shape = [1, 1], dtype = Float64, data = [0]\<rparr>,
      lon = \<lparr>shape = [1, 1], dtype = Float64, data = [0]\<rparr>\<rparr>"

definition cell_settings :: "int \<Rightarrow> int \<Rightarrow> SamplePreprocSettings" where
  "cell_settings n_in n_pred =
     \<lparr>dataset_name = ''dummy'', num_input_steps = n_in, num_pred_steps = n_pred,
      standardize = False, file_format = ''npy''\<rparr>"

definition cell_param :: "kind \<Rightarrow> string \<Rightarrow> WeatherParam" where
  "cell_param k name =
     \<lparr>param_name = name, level = 500, kind = k, parameter_short_name = name\<rparr>"

text \<open>Hourly timestamps: the given terms and one validity time, in seconds, per term.\<close>

definition hourly :: "int list \<Rightarrow> Timestamps" where
  "hourly ts = \<lparr>datetime = 0, terms = ts, validity_times = map (\<lambda>t. t * 3600) ts\<rparr>"

definition cell_sample ::
  "Timestamps \<Rightarrow> int \<Rightarrow> int \<Rightarrow> WeatherParam list \<Rightarrow> py_error + Sample" where
  "cell_sample ts n_in n_pred ps =
     Sample_init ts (cell_settings n_in n_pred) ps (\<lambda>name. None) cell_grid always_exists
       cell_fetch 0"

text \<open>
  Two samples on that source, for one input step and one prediction step: one whose
  parameters are an \<^verbatim>\<open>input\<close> and an \<^verbatim>\<open>output\<close> parameter, and one with an
  \<^verbatim>\<open>input\<close> and an \<^verbatim>\<open>input_output\<close> parameter.
\<close>

definition sample_without_input_output :: Sample where
  "sample_without_input_output =
     projr (cell_sample (hourly [0, 1]) 1 1
              [cell_param Input ''orog'', cell_param Output ''precip''])"

definition sample_with_input_output :: Sample where
  "sample_with_input_output =
     projr (cell_sample (hourly [0, 1]) 1 1
              [cell_param Input ''orog'', cell_param InputOutput ''t2m''])"

section \<open>Dates as text\<close>










section \<open>The validity cache\<close>














section \<open>Properties of Period\<close>

lemma neg_succ_div:
  fixes a s :: int
  assumes "0 < s"
  shows "(- a - 1) div s = - (a div s) - 1"
proof (rule int_div_pos_eq)
  show "- a - 1 = s * (- (a div s) - 1) + (s - 1 - a mod s)"
  proof -
    have "a = s * (a div s) + a mod s" by simp
    then have "- a - 1 = - (s * (a div s)) - a mod s - 1" by linarith
    then show ?thesis by (simp add: algebra_simps)
  qed
  show "0 \<le> s - 1 - a mod s" using assms pos_mod_bound[of s a] by linarith
  show "s - 1 - a mod s < s" using assms pos_mod_sign[of s a] by linarith
qed

lemma arange_len_succ:
  assumes "0 < s"
  shows "int (arange_len lo (hi + 1) s) = max 0 ((hi - lo) div s + 1)"
proof -
  have eq: "lo - (hi + 1) = - (hi - lo) - 1" by simp
  have "(lo - (hi + 1)) div s = - ((hi - lo) div s) - 1"
    unfolding eq by (rule neg_succ_div[OF assms])
  then show ?thesis by (simp add: arange_len_def)
qed

lemma sorted_arange_map:
  assumes "0 < s"
  shows "sorted_wrt (<) (map (\<lambda>i. lo + int i * s) [0..<n])"
  using assms by (simp add: sorted_wrt_iff_nth_less)

text \<open>
  Claim C8. For a period with a positive step duration and \<open>term_start \<le> term_end\<close>,
  \<open>terms_list\<close> returns a list of \<open>floor((term_end - term_start) / step_duration) + 1\<close>
  terms; its \<open>i\<close>-th element is \<open>term_start + i * step_duration\<close>, and the list is
  strictly increasing.
\<close>

theorem terms_list_length_elements:
  assumes "0 < step_duration p" and "term_start p \<le> term_end p"
  shows "case terms_list p of
           Inl e \<Rightarrow> False
         | Inr xs \<Rightarrow>
             int (length xs) = (term_end p - term_start p) div step_duration p + 1
           \<and> (\<forall>i < length xs. xs ! i = term_start p + int i * step_duration p)
           \<and> sorted_wrt (<) xs"
proof -
  have "0 \<le> (term_end p - term_start p) div step_duration p"
    using assms by (simp add: pos_imp_zdiv_nonneg_iff)
  then have len: "int (arange_len (term_start p) (term_end p + 1) (step_duration p)) =
      (term_end p - term_start p) div step_duration p + 1"
    using arange_len_succ[OF assms(1), of "term_start p" "term_end p"] by simp
  show ?thesis
    using assms(1) len sorted_arange_map[OF assms(1)]
    by (simp add: terms_list_def np_arange_def)
qed

theorem terms_list_length_elements_witness:
  "0 < step_duration scenario_period \<and> term_start scenario_period \<le> term_end scenario_period
   \<and> terms_list scenario_period = Inr [0, 2, 4, 6, 8, 10]
   \<and> int (length [0, 2, 4, 6, 8, 10 :: int]) = (11 - 0) div 2 + 1"
proof -
  have h1: "0 < step_duration scenario_period" by (simp add: scenario_period_def)
  have h2: "term_start scenario_period \<le> term_end scenario_period"
    by (simp add: scenario_period_def)
  have ev: "terms_list scenario_period = Inr [0, 2, 4, 6, 8, 10]"
    by (simp add: terms_list_def np_arange_def arange_len_def scenario_period_def upt_rec)
  show ?thesis
    using terms_list_length_elements[OF h1 h2] h1 h2 ev by simp
qed

text \<open>
  What \<open>date_list\<close> computes. It never fails; its \<open>i\<close>-th element is
  \<open>start + i\<close> days, so it is strictly increasing in steps of 24 hours; every element is
  at or after \<open>start\<close> and strictly before the stop of the range, \<open>end\<close> plus one
  day; and when \<open>start\<close> is before that stop the list is not empty and begins with
  \<open>start\<close>.
\<close>

lemma date_list_elements:
  "case date_list p of
     Inl e \<Rightarrow> False
   | Inr ds \<Rightarrow>
       (\<forall>i < length ds. ds ! i = start p + int i * seconds_per_day)
     \<and> sorted_wrt (<) ds
     \<and> (\<forall>d \<in> set ds. start p \<le> d \<and> d < end_date p + seconds_per_day)
     \<and> (start p < end_date p + seconds_per_day \<longrightarrow> ds \<noteq> [] \<and> hd ds = start p)"
proof -
  let ?n = "arange_len (start p) (end_date p + seconds_per_day) seconds_per_day"
  let ?ds = "map (\<lambda>i. start p + int i * seconds_per_day) [0..<?n]"
  have pos: "(0::int) < seconds_per_day" by (simp add: seconds_per_day_def)
  have dl: "date_list p = Inr ?ds"
    using pos by (simp add: date_list_def np_arange_def)
  have nth: "\<forall>i < length ?ds. ?ds ! i = start p + int i * seconds_per_day" by simp
  have srt: "sorted_wrt (<) ?ds" by (rule sorted_arange_map[OF pos])
  have len: "int ?n = max 0 ((end_date p + seconds_per_day - 1 - start p) div seconds_per_day + 1)"
    using arange_len_succ[OF pos, of "start p" "end_date p + seconds_per_day - 1"] by simp
  have bnd: "\<forall>d \<in> set ?ds. start p \<le> d \<and> d < end_date p + seconds_per_day"
  proof
    fix d assume "d \<in> set ?ds"
    then obtain i where i: "i < ?n" and d: "d = start p + int i * seconds_per_day" by auto
    let ?a = "end_date p + seconds_per_day - 1 - start p"
    from i len have "int i \<le> ?a div seconds_per_day" by linarith
    then have "int i * seconds_per_day \<le> (?a div seconds_per_day) * seconds_per_day"
      using pos by (simp add: mult_right_mono)
    also have "\<dots> \<le> ?a"
      using pos by (metis mult.commute div_mult_mod_eq pos_mod_sign le_add_same_cancel1 mult.commute)
    finally have "int i * seconds_per_day \<le> ?a" .
    moreover have "0 \<le> int i * seconds_per_day" using pos by simp
    ultimately show "start p \<le> d \<and> d < end_date p + seconds_per_day" using d by linarith
  qed
  have ne: "start p < end_date p + seconds_per_day \<longrightarrow> ?ds \<noteq> [] \<and> hd ?ds = start p"
  proof
    assume lt: "start p < end_date p + seconds_per_day"
    then have "0 \<le> (end_date p + seconds_per_day - 1 - start p) div seconds_per_day"
      using pos by (simp add: pos_imp_zdiv_nonneg_iff)
    with len have "0 < ?n" by linarith
    then show "?ds \<noteq> [] \<and> hd ?ds = start p"
      by (simp add: hd_map upt_conv_Cons)
  qed
  show ?thesis unfolding dl using nth srt bnd ne by simp
qed

lemma date_list_elements_dummy_train:
  "date_list dummy_train_period = Inr [1672531200, 1672617600]
   \<and> start dummy_train_period < end_date dummy_train_period + seconds_per_day
   \<and> hd [1672531200, 1672617600 :: int] = start dummy_train_period
   \<and> (1672617600 :: int) < end_date dummy_train_period + seconds_per_day"
proof -
  have ev: "date_list dummy_train_period = Inr [1672531200, 1672617600]"
    by (simp add: date_list_def np_arange_def arange_len_def dummy_train_period_def
        seconds_per_day_def upt_rec)
  show ?thesis
    using date_list_elements[of dummy_train_period] ev
    by (simp add: dummy_train_period_def seconds_per_day_def)
qed

text \<open>
  Claim C5 fails on the code. On the \<^verbatim>\<open>train\<close> period of the dummy configuration
  (start 2023-01-01 00:00, end 2023-01-01 07:00) \<open>date_list\<close> returns two dates: the
  second, 2023-01-02 00:00, is later than the end, and on the day after the day of the
  end.
\<close>

theorem date_list_exceeds_end:
  "date_list dummy_train_period = Inr [1672531200, 1672617600]
   \<and> end_date dummy_train_period < 1672617600
   \<and> end_date dummy_train_period div seconds_per_day < 1672617600 div seconds_per_day"
  by (simp add: date_list_def np_arange_def arange_len_def dummy_train_period_def
      seconds_per_day_def upt_rec)


section \<open>Properties of Item\<close>

text \<open>
  Claim C7. Building an \<^verbatim>\<open>Item\<close> whose inputs and outputs differ in their axis names,
  or whose feature names differ as sets, raises \<^verbatim>\<open>ValueError\<close>; and every
  \<^verbatim>\<open>Item\<close> that is built holds the tensors it was given, with inputs and outputs that
  have the same axis names and the same feature names.
\<close>

theorem Item_init_checks:
  "(names inp \<noteq> names out \<or> set (feature_names inp) \<noteq> set (feature_names out)
      \<longrightarrow> Item_init inp frc out = Inl ValueError)
   \<and> (\<forall>it. Item_init inp frc out = Inr it \<longrightarrow>
          inputs it = inp \<and> forcing it = frc \<and> outputs it = out
        \<and> names (inputs it) = names (outputs it)
        \<and> feature_names (inputs it) = feature_names (outputs it))"
proof (intro conjI impI allI)
  assume "names inp \<noteq> names out \<or> set (feature_names inp) \<noteq> set (feature_names out)"
  then have "names inp \<noteq> names out \<or> feature_names inp \<noteq> feature_names out" by auto
  then show "Item_init inp frc out = Inl ValueError" by (auto simp: Item_init_def)
next
  fix it assume a: "Item_init inp frc out = Inr it"
  then have n: "names inp = names out" and f: "feature_names inp = feature_names out"
    by (simp_all add: Item_init_def split: if_splits)
  from a n f have it: "it = \<lparr>inputs = inp, forcing = frc, outputs = out\<rparr>"
    by (simp add: Item_init_def)
  show "inputs it = inp" "forcing it = frc" "outputs it = out" by (simp_all add: it)
  show "names (inputs it) = names (outputs it)" by (simp add: it n)
  show "feature_names (inputs it) = feature_names (outputs it)" by (simp add: it f)
qed


theorem Item_init_checks_witness:
  "set (feature_names (state_nt Float64 ''t2m'' [1])) \<noteq> set (feature_names (state_nt Float64 ''u10'' [2]))
   \<and> Item_init (state_nt Float64 ''t2m'' [1]) (state_nt Float64 ''toa'' [5]) (state_nt Float64 ''u10'' [2])
       = Inl ValueError
   \<and> Item_init (inputs example_item_a) (forcing example_item_a) (outputs example_item_a)
       = Inr example_item_a
   \<and> names (inputs example_item_a) = names (outputs example_item_a)
   \<and> feature_names (inputs example_item_a) = feature_names (outputs example_item_a)"
proof -
  have d: "set (feature_names (state_nt Float64 ''t2m'' [1]))
             \<noteq> set (feature_names (state_nt Float64 ''u10'' [2]))"
    by (simp add: state_nt_def)
  have ok: "Item_init (inputs example_item_a) (forcing example_item_a) (outputs example_item_a)
       = Inr example_item_a"
    by (simp add: Item_init_def example_item_a_def state_nt_def)
  note t1 = Item_init_checks[of "state_nt Float64 ''t2m'' [1]" "state_nt Float64 ''u10'' [2]"
        "state_nt Float64 ''toa'' [5]"]
  note t2 = Item_init_checks[of "inputs example_item_a" "outputs example_item_a"
        "forcing example_item_a"]
  from t1 d have bad: "Item_init (state_nt Float64 ''t2m'' [1]) (state_nt Float64 ''toa'' [5])
      (state_nt Float64 ''u10'' [2]) = Inl ValueError" by blast
  from t2 ok have good: "names (inputs example_item_a) = names (outputs example_item_a)
     \<and> feature_names (inputs example_item_a) = feature_names (outputs example_item_a)" by blast
  from d bad ok good show ?thesis by blast
qed


section \<open>Properties of the batch collator\<close>

lemma collate_field_Inr:
  assumes "collate_field fld (x # xs) = Inr b"
  shows "names b = ''batch'' # names (fld x)
       \<and> feature_names b = feature_names (fld x)
       \<and> feature_dim_name b = feature_dim_name (fld x)
       \<and> shape (tensor b) = Suc (length xs) # shape (tensor (fld x))
       \<and> dtype (tensor b) = Float32
       \<and> data (tensor b) = concat (map (\<lambda>it. data (tensor (fld it))) (x # xs))
       \<and> list_all (\<lambda>it. shape (tensor (fld it)) = shape (tensor (fld x))) xs"
  using assms
  by (auto simp: collate_field_def collate_tensor_fn_def expand_to_batch_like_def
      NamedTensor_init_def tensor_type_def list_all_iff comp_def
      split: if_splits option.splits sum.splits)




lemma collate_field_tensors_only:
  assumes "map (\<lambda>it. tensor (fld it)) xs = map (\<lambda>it. tensor (fld it)) ys"
  shows "collate_field fld (x # xs) = collate_field fld (x # ys)"
  using assms by (simp add: collate_field_def split: sum.splits)

lemma collate_ab:
  "collate_fn [example_item_a, example_item_b] =
     Inr \<lparr>inputs = \<lparr>tensor = \<lparr>shape = [2, 2, 1, 1, 1], dtype = Float32, data = [1, 2, 7, 8]\<rparr>,
                    names = ''batch'' # state_names, feature_names = [''t2m''],
                    feature_dim_name = features_axis\<rparr>,
          forcing = \<lparr>tensor = \<lparr>shape = [2, 1, 1, 1, 1], dtype = Float32, data = [5, 6]\<rparr>,
                    names = ''batch'' # state_names, feature_names = [''toa''],
                    feature_dim_name = features_axis\<rparr>,
          outputs = \<lparr>tensor = \<lparr>shape = [2, 1, 1, 1, 1], dtype = Float32, data = [3, 9]\<rparr>,
                    names = ''batch'' # state_names, feature_names = [''t2m''],
                    feature_dim_name = features_axis\<rparr>\<rparr>"
  by (simp add: collate_fn_def collate_field_def collate_tensor_fn_def expand_to_batch_like_def
      NamedTensor_init_def tensor_type_def rank_def ItemBatch_init_def Item_init_def
      example_item_a_def example_item_b_def state_nt_def state_names_def features_axis_def)






text \<open>
  Claim C4, as the code has it. The collator does not compare the labels of the items:
  it fails on an empty list, its result depends on the items after the first only through
  their tensors, and when it returns a batch the axis names (behind \<^verbatim>\<open>batch\<close>) and the
  feature names are those of the first item, and every item has the shapes of the first.
\<close>

theorem collate_fn_labels_from_first_item:
  "collate_fn [] = Inl IndexError
   \<and> (map item_tensors xs = map item_tensors ys \<longrightarrow> collate_fn (x # xs) = collate_fn (x # ys))
   \<and> (\<forall>b. collate_fn (x # xs) = Inr b \<longrightarrow>
          names (inputs b) = ''batch'' # names (inputs x)
        \<and> names (forcing b) = ''batch'' # names (forcing x)
        \<and> names (outputs b) = ''batch'' # names (outputs x)
        \<and> feature_names (inputs b) = feature_names (inputs x)
        \<and> feature_names (forcing b) = feature_names (forcing x)
        \<and> feature_names (outputs b) = feature_names (outputs x)
        \<and> list_all (same_shapes x) xs)"
proof (intro conjI impI allI)
  show "collate_fn [] = Inl IndexError"
    by (simp add: collate_fn_def collate_field_def collate_tensor_fn_def)
next
  assume eq: "map item_tensors xs = map item_tensors ys"
  have "map (\<lambda>it. tensor (inputs it)) xs = map (fst \<circ> item_tensors) xs" 
    "map (\<lambda>it. tensor (inputs it)) ys = map (fst \<circ> item_tensors) ys"
    "map (\<lambda>it. tensor (forcing it)) xs = map (fst \<circ> snd \<circ> item_tensors) xs" 
    "map (\<lambda>it. tensor (forcing it)) ys = map (fst \<circ> snd \<circ> item_tensors) ys"
    "map (\<lambda>it. tensor (outputs it)) xs = map (snd \<circ> snd \<circ> item_tensors) xs" 
    "map (\<lambda>it. tensor (outputs it)) ys = map (snd \<circ> snd \<circ> item_tensors) ys"
    by (simp_all add: item_tensors_def comp_def)
  moreover have "map (fst \<circ> item_tensors) xs = map (fst \<circ> item_tensors) ys"
    "map (fst \<circ> snd \<circ> item_tensors) xs = map (fst \<circ> snd \<circ> item_tensors) ys"
    "map (snd \<circ> snd \<circ> item_tensors) xs = map (snd \<circ> snd \<circ> item_tensors) ys"
    using eq by (metis map_map)+
  ultimately have m: "map (\<lambda>it. tensor (inputs it)) xs = map (\<lambda>it. tensor (inputs it)) ys"
    "map (\<lambda>it. tensor (forcing it)) xs = map (\<lambda>it. tensor (forcing it)) ys"
    "map (\<lambda>it. tensor (outputs it)) xs = map (\<lambda>it. tensor (outputs it)) ys"
    by simp_all
  show "collate_fn (x # xs) = collate_fn (x # ys)"
    unfolding collate_fn_def
    by (simp only: collate_field_tensors_only[OF m(1)] collate_field_tensors_only[OF m(2)]
        collate_field_tensors_only[OF m(3)])
next
  fix b assume a: "collate_fn (x # xs) = Inr b"
  then obtain bi bf bo where bi: "collate_field inputs (x # xs) = Inr bi"
    and bf: "collate_field forcing (x # xs) = Inr bf"
    and bo: "collate_field outputs (x # xs) = Inr bo"
    and b: "ItemBatch_init bi bf bo = Inr b"
    by (auto simp: collate_fn_def split: sum.splits)
  from b have bb: "b = \<lparr>inputs = bi, forcing = bf, outputs = bo\<rparr>"
    by (simp add: ItemBatch_init_def Item_init_def split: if_splits)
  note pi = collate_field_Inr[OF bi] and pf = collate_field_Inr[OF bf]
    and po = collate_field_Inr[OF bo]
  show "names (inputs b) = ''batch'' # names (inputs x)" using pi bb by simp
  show "names (forcing b) = ''batch'' # names (forcing x)" using pf bb by simp
  show "names (outputs b) = ''batch'' # names (outputs x)" using po bb by simp
  show "feature_names (inputs b) = feature_names (inputs x)" using pi bb by simp
  show "feature_names (forcing b) = feature_names (forcing x)" using pf bb by simp
  show "feature_names (outputs b) = feature_names (outputs x)" using po bb by simp
  show "list_all (same_shapes x) xs"
    using pi pf po by (simp add: list_all_iff same_shapes_def)
qed


theorem collate_fn_labels_from_first_item_witness:
  "map item_tensors [example_item_b] = map item_tensors [example_item_c]
   \<and> collate_fn [example_item_a, example_item_b] = collate_fn [example_item_a, example_item_c]
   \<and> (case collate_fn [example_item_a, example_item_b] of
         Inl e \<Rightarrow> False
       | Inr b \<Rightarrow> names (inputs b) = ''batch'' # names (inputs example_item_a)
                \<and> feature_names (inputs b) = feature_names (inputs example_item_a))
   \<and> list_all (same_shapes example_item_a) [example_item_b]"
proof -
  note t = collate_fn_labels_from_first_item[of "[example_item_b]" "[example_item_c]"
      example_item_a]
  have eq: "map item_tensors [example_item_b] = map item_tensors [example_item_c]"
    by (simp add: item_tensors_def example_item_b_def example_item_c_def state_nt_def)
  from t eq have c2: "collate_fn [example_item_a, example_item_b]
      = collate_fn [example_item_a, example_item_c]" by blast
  from t collate_ab have c3: "names (inputs (projr (collate_fn [example_item_a, example_item_b])))
        = ''batch'' # names (inputs example_item_a)
      \<and> feature_names (inputs (projr (collate_fn [example_item_a, example_item_b])))
        = feature_names (inputs example_item_a)
      \<and> list_all (same_shapes example_item_a) [example_item_b]"
    by (metis sum.sel(2))
  then have c4: "case collate_fn [example_item_a, example_item_b] of
         Inl e \<Rightarrow> False
       | Inr b \<Rightarrow> names (inputs b) = ''batch'' # names (inputs example_item_a)
                \<and> feature_names (inputs b) = feature_names (inputs example_item_a)"
    by (simp add: collate_ab)
  from eq c2 c3 c4 show ?thesis by blast
qed

text \<open>
  The claim as written fails: two items of equal shapes whose feature names differ are
  collated without an error, and the batch carries the feature names of the first.
\<close>

theorem collate_fn_mismatch_counterexample:
  "feature_names (inputs example_item_a) \<noteq> feature_names (inputs example_item_b)
   \<and> (case collate_fn [example_item_a, example_item_b] of
         Inl e \<Rightarrow> False
       | Inr b \<Rightarrow> feature_names (inputs b) = [''t2m''])"
  by (simp add: collate_ab) (simp add: example_item_a_def example_item_b_def state_nt_def)


section \<open>Properties of Sample\<close>

text \<open>
  What the constructor checks. It compares the number of validity times, not the number
  of terms, with \<^verbatim>\<open>num_input_steps + num_pred_steps\<close>: a mismatch raises, and every
  sample that is built has that many validity times. When the timestamps hold one validity
  time per term, the same is true of the number of terms.
\<close>

lemma Sample_init_length_invariant:
  "(num_input_steps st + num_pred_steps st \<noteq> int (length (validity_times ts)) \<longrightarrow>
      Sample_init ts st ps sts g ex gpt m = Inl GenericException)
   \<and> (\<forall>s. Sample_init ts st ps sts g ex gpt m = Inr s \<longrightarrow>
          timestamps s = ts \<and> settings s = st
        \<and> int (length (validity_times (timestamps s)))
            = num_input_steps (settings s) + num_pred_steps (settings s))
   \<and> (length (terms ts) = length (validity_times ts) \<longrightarrow>
        (int (length (terms ts)) \<noteq> num_input_steps st + num_pred_steps st \<longrightarrow>
           Sample_init ts st ps sts g ex gpt m = Inl GenericException)
      \<and> (\<forall>s. Sample_init ts st ps sts g ex gpt m = Inr s \<longrightarrow>
             int (length (terms (timestamps s)))
               = num_input_steps (settings s) + num_pred_steps (settings s)))"
  by (auto simp: Sample_init_def split: if_splits)


lemma Sample_init_length_invariant_example:
  "length (terms (hourly [0, 1])) = length (validity_times (hourly [0, 1]))
   \<and> Sample_init (hourly [0, 1]) (cell_settings 2 1) [] (\<lambda>n. None) cell_grid always_exists
        cell_fetch 0 = Inl GenericException
   \<and> \<not> isl (Sample_init (hourly [0, 1]) (cell_settings 1 1) [] (\<lambda>n. None) cell_grid
        always_exists cell_fetch 0)
   \<and> int (length (terms (timestamps (projr (Sample_init (hourly [0, 1]) (cell_settings 1 1) []
        (\<lambda>n. None) cell_grid always_exists cell_fetch 0))))) = 1 + 1"
proof -
  have h1: "length (terms (hourly [0, 1])) = length (validity_times (hourly [0, 1]))"
    by (simp add: hourly_def)
  have h2: "int (length (terms (hourly [0, 1])))
      \<noteq> num_input_steps (cell_settings 2 1) + num_pred_steps (cell_settings 2 1)"
    by (simp add: hourly_def cell_settings_def)
  have h3: "\<not> isl (Sample_init (hourly [0, 1]) (cell_settings 1 1) [] (\<lambda>n. None) cell_grid
        always_exists cell_fetch 0)"
    by (simp add: Sample_init_def hourly_def cell_settings_def)
  then obtain s where s: "Sample_init (hourly [0, 1]) (cell_settings 1 1) [] (\<lambda>n. None) cell_grid
        always_exists cell_fetch 0 = Inr s"
    by (cases "Sample_init (hourly [0, 1]) (cell_settings 1 1) [] (\<lambda>n. None) cell_grid
        always_exists cell_fetch 0") auto
  from Sample_init_length_invariant[of "cell_settings 2 1" "hourly [0, 1]" "[]" "\<lambda>n. None"
      cell_grid always_exists cell_fetch 0] h1 h2
  have c1: "Sample_init (hourly [0, 1]) (cell_settings 2 1) [] (\<lambda>n. None) cell_grid always_exists
        cell_fetch 0 = Inl GenericException"
    by blast
  from Sample_init_length_invariant[of "cell_settings 1 1" "hourly [0, 1]" "[]" "\<lambda>n. None"
      cell_grid always_exists cell_fetch 0] h1 s
  have "int (length (terms (timestamps s)))
      = num_input_steps (settings s) + num_pred_steps (settings s)" "settings s = cell_settings 1 1"
    by blast+
  then have "int (length (terms (timestamps s))) = 1 + 1"
    by (simp add: cell_settings_def)
  moreover have "projr (Sample_init (hourly [0, 1]) (cell_settings 1 1) [] (\<lambda>n. None) cell_grid
      always_exists cell_fetch 0) = s"
    by (simp add: s)
  ultimately have c2: "int (length (terms (timestamps (projr (Sample_init (hourly [0, 1])
      (cell_settings 1 1) [] (\<lambda>n. None) cell_grid always_exists cell_fetch 0))))) = 1 + 1"
    by simp
  from h1 c1 h3 c2 show ?thesis by blast
qed

text \<open>
  Claim C6 fails on the code. For timestamps with three terms and two validity times,
  one input step and one prediction step, the constructor does not raise: the sample is
  built, and the number of its terms is not \<^verbatim>\<open>num_input_steps + num_pred_steps\<close>.
\<close>

theorem Sample_init_ignores_terms:
  "case Sample_init \<lparr>datetime = 0, terms = [0, 1, 2], validity_times = [0, 3600]\<rparr>
          (cell_settings 1 1) [] (\<lambda>n. None) cell_grid always_exists cell_fetch 0 of
     Inl e \<Rightarrow> False
   | Inr s \<Rightarrow> int (length (terms (timestamps s)))
               \<noteq> num_input_steps (settings s) + num_pred_steps (settings s)"
  by (simp add: Sample_init_def cell_settings_def)

section \<open>Properties of Sample.load\<close>

lemma load_param_keeps_linputs:
  assumes "kind param \<noteq> InputOutput"
    and "load_param s ns param (li, lo, fe) = Inr (li', lo', fe')"
  shows "li' = li"
  using assms
  by (cases "kind param") (auto simp: load_param_def split: sum.splits)

lemma load_params_keeps_linputs:
  assumes "list_all (\<lambda>p. kind p \<noteq> InputOutput) ps"
    and "load_params s ns ps acc = Inr acc'"
  shows "fst acc' = fst acc"
  using assms
proof (induction ps arbitrary: acc)
  case Nil
  then show ?case by simp
next
  case (Cons p ps)
  from Cons.prems(2) obtain acc1 where a1: "load_param s ns p acc = Inr acc1"
    and a2: "load_params s ns ps acc1 = Inr acc'"
    by (auto split: sum.splits)
  obtain li lo fe where acc: "acc = (li, lo, fe)" by (cases acc) auto
  obtain li1 lo1 fe1 where acc1: "acc1 = (li1, lo1, fe1)" by (cases acc1) auto
  from Cons.prems(1) have k: "kind p \<noteq> InputOutput" and r: "list_all (\<lambda>p. kind p \<noteq> InputOutput) ps"
    by simp_all
  from load_param_keeps_linputs[OF k a1[unfolded acc acc1]] have "li1 = li" .
  moreover from Cons.IH[OF r a2] have "fst acc' = fst acc1" .
  ultimately show ?case by (simp add: acc acc1)
qed

lemma generate_forcings_nonempty:
  assumes "generate_forcings fu d ts g = Inr lf"
  shows "lf \<noteq> []"
  using assms by (auto simp: generate_forcings_def split: sum.splits)

lemma expand_forcings_no_inputs:
  assumes "lf \<noteq> []"
  shows "expand_forcings lf [] = Inl IndexError"
  using assms by (cases lf) simp_all


text \<open>
  Claim C10. When no parameter of the sample has the kind \<^verbatim>\<open>input_output\<close>,
  \<^verbatim>\<open>load\<close> raises before its \<^verbatim>\<open>return\<close> statement, and the error is the
  \<^verbatim>\<open>IndexError\<close> of \<^verbatim>\<open>linputs[0]\<close> whenever the fetches and the generation of the
  forcings succeed; so \<^verbatim>\<open>load\<close> reaches the construction of the \<^verbatim>\<open>Item\<close> only
  when some parameter has the kind \<^verbatim>\<open>input_output\<close>.
\<close>

theorem load_needs_input_output:
  "(list_all (\<lambda>p. kind p \<noteq> InputOutput) (params s) \<longrightarrow>
      isl (load_lists fu s ns) \<and> isl (load fu s ns))
   \<and> (list_all (\<lambda>p. kind p \<noteq> InputOutput) (params s)
        \<and> \<not> isl (load_params s ns (params s) ([], [], []))
        \<and> \<not> isl (generate_forcings fu (datetime (timestamps s)) (terms (output_timestamps s))
                   (grid s)) \<longrightarrow>
      load fu s ns = Inl IndexError)
   \<and> (\<not> isl (load_lists fu s ns) \<longrightarrow> list_ex (\<lambda>p. kind p = InputOutput) (params s))"
proof -
  have main: "load_lists fu s ns = Inl IndexError
      \<or> isl (load_params s ns (params s) ([], [], []))
         \<and> isl (load_lists fu s ns)
      \<or> isl (generate_forcings fu (datetime (timestamps s)) (terms (output_timestamps s)) (grid s))
         \<and> isl (load_lists fu s ns)"
    if no: "list_all (\<lambda>p. kind p \<noteq> InputOutput) (params s)"
  proof (cases "load_params s ns (params s) ([], [], [])")
    case (Inl e)
    then show ?thesis by (simp add: load_lists_def)
  next
    case (Inr acc)
    from load_params_keeps_linputs[OF no Inr] have e: "fst acc = []" by simp
    show ?thesis
    proof (cases "generate_forcings fu (datetime (timestamps s)) (terms (output_timestamps s)) (grid s)")
      case (Inl e')
      then show ?thesis using Inr by (simp add: load_lists_def)
    next
      case gf: (Inr lf)
      from expand_forcings_no_inputs[OF generate_forcings_nonempty[OF gf]]
      show ?thesis using Inr gf e by (simp add: load_lists_def)
    qed
  qed
  have p1: "isl (load_lists fu s ns) \<and> isl (load fu s ns)"
    if no: "list_all (\<lambda>p. kind p \<noteq> InputOutput) (params s)"
    using main[OF no] by (auto simp: load_def split: sum.splits)
  have p2: "load fu s ns = Inl IndexError"
    if "list_all (\<lambda>p. kind p \<noteq> InputOutput) (params s)
        \<and> \<not> isl (load_params s ns (params s) ([], [], []))
        \<and> \<not> isl (generate_forcings fu (datetime (timestamps s)) (terms (output_timestamps s))
                   (grid s))"
    using main that by (auto simp: load_def)
  have p3: "list_ex (\<lambda>p. kind p = InputOutput) (params s)" if "\<not> isl (load_lists fu s ns)"
  proof (rule ccontr)
    assume "\<not> list_ex (\<lambda>p. kind p = InputOutput) (params s)"
    then have "list_all (\<lambda>p. kind p \<noteq> InputOutput) (params s)"
      by (simp add: list_all_iff list_ex_iff)
    from p1[OF this] that show False by simp
  qed
  from p1 p2 p3 show ?thesis by blast
qed



theorem load_needs_input_output_witness:
  "\<not> isl (cell_sample (hourly [0, 1]) 1 1 [cell_param Input ''orog'', cell_param Output ''precip''])
   \<and> list_all (\<lambda>p. kind p \<noteq> InputOutput) (params sample_without_input_output)
   \<and> load cell_forcingutils sample_without_input_output False = Inl IndexError
   \<and> \<not> isl (load_lists cell_forcingutils sample_with_input_output False)
   \<and> list_ex (\<lambda>p. kind p = InputOutput) (params sample_with_input_output)"
proof -
  have h0: "\<not> isl (cell_sample (hourly [0, 1]) 1 1
      [cell_param Input ''orog'', cell_param Output ''precip''])"
    by code_simp
  have h1: "list_all (\<lambda>p. kind p \<noteq> InputOutput) (params sample_without_input_output)"
    by code_simp
  have h2: "\<not> isl (load_params sample_without_input_output False
      (params sample_without_input_output) ([], [], []))"
    by code_simp
  have h3: "\<not> isl (generate_forcings cell_forcingutils
      (datetime (timestamps sample_without_input_output))
      (terms (output_timestamps sample_without_input_output))
      (grid sample_without_input_output))"
    by code_simp
  have h4: "\<not> isl (load_lists cell_forcingutils sample_with_input_output False)"
    by code_simp
  from load_needs_input_output[of sample_without_input_output cell_forcingutils False] h1 h2 h3
  have c1: "load cell_forcingutils sample_without_input_output False = Inl IndexError"
    by blast
  from load_needs_input_output[of sample_with_input_output cell_forcingutils False] h4
  have c2: "list_ex (\<lambda>p. kind p = InputOutput) (params sample_with_input_output)"
    by blast
  from h0 h1 c1 h4 c2 show ?thesis by blast
qed

text \<open>
  Claim C1 fails on the code. For a sample with an \<^verbatim>\<open>input\<close> parameter \<^verbatim>\<open>orog\<close>
  and an \<^verbatim>\<open>input_output\<close> parameter \<^verbatim>\<open>t2m\<close>, \<^verbatim>\<open>load\<close> fetches \<^verbatim>\<open>orog\<close>
  over the input timestamps, but the tensor is in no list: \<^verbatim>\<open>linputs\<close> and the inputs
  of the item hold \<^verbatim>\<open>t2m\<close> alone, and the forcing holds the five generated features.
\<close>

theorem load_drops_input_parameter:
  "case cell_sample (hourly [0, 1]) 1 1 [cell_param Input ''orog'', cell_param InputOutput ''t2m''] of
     Inl e \<Rightarrow> False
   | Inr s \<Rightarrow>
       (case load_lists cell_forcingutils s False of
          Inl e \<Rightarrow> False
        | Inr ((linputs, loutputs, fetched), lforcings) \<Rightarrow>
            fetched = [(cell_param Input ''orog'', input_timestamps s),
                       (cell_param InputOutput ''t2m'', timestamps s)]
          \<and> map feature_names linputs = [ [''t2m''] ])
     \<and> (case load cell_forcingutils s False of
          Inl e \<Rightarrow> False
        | Inr item \<Rightarrow>
            feature_names (inputs item) = [''t2m'']
          \<and> shape (tensor (inputs item)) = [1, 1, 1, 1]
          \<and> feature_names (forcing item) =
              [''cos_hour'', ''sin_hour'', ''cos_doy'', ''sin_doy'', ''toa_radiation''])"
  by code_simp

text \<open>
  Claim C3 fails on the code when \<^verbatim>\<open>num_pred_steps\<close> is 0. For two input steps
  and no prediction step the \<^verbatim>\<open>input_output\<close> parameter is fetched once over all
  timestamps, but \<^verbatim>\<open>tensor[-0:]\<close> is the whole tensor: the output slice has the two
  timesteps of the fetch, not the last zero.
\<close>

theorem load_output_slice_zero_pred_steps:
  "case cell_sample (hourly [- 1, 0]) 2 0 [cell_param InputOutput ''t2m''] of
     Inl e \<Rightarrow> False
   | Inr s \<Rightarrow>
       num_pred_steps (settings s) = 0
     \<and> (case load_lists cell_forcingutils s False of
          Inl e \<Rightarrow> False
        | Inr ((linputs, loutputs, fetched), lforcings) \<Rightarrow>
            fetched = [(cell_param InputOutput ''t2m'', timestamps s)]
          \<and> map (\<lambda>nt. shape (tensor nt)) loutputs = [ [2, 1, 1, 1] ]
          \<and> map (\<lambda>nt. data (tensor nt)) loutputs = [ [- 1, 0] ])
     \<and> (case load cell_forcingutils s False of
          Inl e \<Rightarrow> False
        | Inr item \<Rightarrow>
            shape (tensor (outputs item)) = [2, 1, 1, 1]
          \<and> shape (tensor (forcing item)) = [0, 1, 1, 5])"
  by code_simp


section \<open>Properties of the validity cache\<close>






section \<open>Further properties of the fetches and the split\<close>

text \<open>
  Whatever the sample, the feature names of \<^verbatim>\<open>linputs\<close> are the short names of the
  \<^verbatim>\<open>input_output\<close> parameters, in the order of the parameter list: no other parameter
  reaches the inputs.
\<close>

lemma load_param_linputs_names:
  assumes "load_param s ns p (li, lo, fe) = Inr (li', lo', fe')"
  shows "map feature_names li'
         = map feature_names li
           @ (if kind p = InputOutput then [ [parameter_short_name p] ] else [])"
  using assms
  by (cases "kind p")
     (auto simp: load_param_def NamedTensor_init_def split: sum.splits option.splits if_splits)

lemma load_params_linputs_names:
  assumes "load_params s ns ps acc = Inr acc'"
  shows "map feature_names (fst acc')
         = map feature_names (fst acc)
           @ map (\<lambda>p. [parameter_short_name p]) (filter (\<lambda>p. kind p = InputOutput) ps)"
  using assms
proof (induction ps arbitrary: acc)
  case Nil
  then show ?case by simp
next
  case (Cons p ps)
  from Cons.prems obtain acc1 where a1: "load_param s ns p acc = Inr acc1"
    and a2: "load_params s ns ps acc1 = Inr acc'"
    by (auto split: sum.splits)
  obtain li lo fe where acc: "acc = (li, lo, fe)" by (cases acc) auto
  obtain li1 lo1 fe1 where acc1: "acc1 = (li1, lo1, fe1)" by (cases acc1) auto
  from load_param_linputs_names[OF a1[unfolded acc acc1]] Cons.IH[OF a2]
  show ?case by (simp add: acc acc1)
qed

text \<open>
  An \<^verbatim>\<open>input_output\<close> parameter is fetched once, over all timestamps; its input and
  output states are slices of the one tensor fetched. The input slice is the first
  \<^verbatim>\<open>num_input_steps\<close> timesteps. The output slice is the last \<^verbatim>\<open>num_pred_steps\<close>
  timesteps when that number is at least 1, and the whole tensor when it is 0.
\<close>

lemma load_param_input_output:
  assumes "kind p = InputOutput"
    and "load_param s ns p (li, lo, fe) = Inr (li', lo', fe')"
  shows "\<exists>t t_in t_out.
           get_param_tensor s p (stats s) (timestamps s) (settings s)
             (standardize (settings s) \<and> \<not> ns) (member_id s) = Inr t
         \<and> tensor_slice_to (num_input_steps (settings s)) t = Inr t_in
         \<and> tensor_slice_from (- num_pred_steps (settings s)) t = Inr t_out
         \<and> li' = li @ [\<lparr>tensor = t_in, names = state_names,
                          feature_names = [parameter_short_name p],
                          feature_dim_name = features_axis\<rparr>]
         \<and> lo' = lo @ [\<lparr>tensor = t_out, names = state_names,
                          feature_names = [parameter_short_name p],
                          feature_dim_name = features_axis\<rparr>]
         \<and> fe' = fe @ [(p, timestamps s)]"
  using assms
  by (auto simp: load_param_def NamedTensor_init_def split: sum.splits option.splits if_splits)

lemma tensor_slice_to_first:
  assumes "shape t = d # ds" and "0 \<le> n" and "nat n \<le> d"
  shows "tensor_slice_to n t
         = Inr \<lparr>shape = nat n # ds, dtype = dtype t, data = take (nat n * prod_list ds) (data t)\<rparr>"
  using assms by (simp add: tensor_slice_to_def py_clamp_def min_def)

lemma tensor_slice_from_last:
  assumes "shape t = d # ds" and "0 < k" and "nat k \<le> d"
  shows "tensor_slice_from (- k) t
         = Inr \<lparr>shape = nat k # ds, dtype = dtype t,
                data = drop ((d - nat k) * prod_list ds) (data t)\<rparr>"
proof -
  have "py_clamp (- k) d = d - nat k" using assms(2,3) by (simp add: py_clamp_def)
  moreover have "d - (d - nat k) = nat k" using assms(3) by simp
  ultimately show ?thesis using assms(1) by (simp add: tensor_slice_from_def)
qed

lemma tensor_slice_from_zero:
  assumes "shape t = d # ds"
  shows "tensor_slice_from (- 0) t = Inr t"
  using assms by (simp add: tensor_slice_from_def py_clamp_def)


text \<open>
  In the fetch of the Titan accessor, standardization is applied to the whole array that
  the fetch returns: each element \<open>v\<close> of the array read becomes \<open>(v - mean) / std\<close>
  with the statistics of the parameter.
\<close>

lemma Titan_get_param_tensor_standardized:
  assumes "standardize st" and "\<not> no_standardize"
    and "Titan_get_param_tensor disk param sts dates st no_standardize = Inr t"
  shows "\<exists>raw stt. Titan_get_param_tensor disk param sts dates st True = Inr raw
           \<and> sts (parameter_short_name param) = Some stt
           \<and> shape t = shape raw
           \<and> data t = map (\<lambda>v. (v - stat_mean stt) / stat_std stt) (data raw)"
  using assms
  by (auto simp: Titan_get_param_tensor_def standardize_array_def split: sum.splits option.splits)


end
